theory Spec2Isabelle
  imports Main
begin

section \<open>Authoritative resolvers: the model of twisted/names/authority.py\<close>

subsection \<open>Byte strings\<close>

text \<open>
  Python 2 \<open>str\<close> values are byte strings; they are modelled as \<open>string\<close> (a list of
  \<open>char\<close>).  \<open>str.lower\<close> maps the ASCII letters \<open>A\<close> to \<open>Z\<close> onto \<open>a\<close> to \<open>z\<close> and
  leaves every other byte alone.
\<close>

definition lower_char :: "char \<Rightarrow> char" where
  "lower_char c =
     (let n = (of_char c :: nat)
      in if 65 \<le> n \<and> n \<le> 90 then char_of (n + 32) else c)"

definition lower :: "string \<Rightarrow> string" where
  "lower s = map lower_char s"

subsection \<open>Errors\<close>

text \<open>
  Every exception the modelled code can raise, and every failure its Deferred can fire
  with, is a value.  \<open>DomainError\<close> is the spec's \<open>NotInZone\<close>,
  \<open>AuthoritativeDomainError\<close> is the spec's \<open>NotAuthoritative\<close>.  The names
  \<open>dns.DomainError\<close> and \<open>error.DomainError\<close> stand for one class: the \<open>dns\<close>
  module takes its error classes from \<open>twisted.names.error\<close>.
\<close>

datatype error =
    DomainError string
  | AuthoritativeDomainError string
  | AttributeError
  | UnboundLocalError
  | IndexError
  | TypeError
  | ValueError
  | NotImplementedError string

subsection \<open>Records and headers\<close>

text \<open>
  The record type codes \<open>dns.A\<close>, \<open>dns.NS\<close>, ... are pairwise different integers of
  the \<open>dns\<close> module; all the code does with them is compare them.
\<close>

datatype rrtype =
    dns_A | dns_NS | dns_CNAME | dns_SOA | dns_MX | dns_AAAA
  | dns_ALL_RECORDS
  | dns_OTHER nat

datatype rrclass = dns_IN

text \<open>
  The payload classes \<open>dns.Record_A\<close>, \<open>dns.Record_NS\<close>, ...: the fields the
  authority reads are \<open>name\<close> (of NS, CNAME and MX), \<open>minimum\<close> and \<open>expire\<close> (of SOA),
  and the class attribute \<open>TYPE\<close>.
\<close>

datatype rdata =
    Record_A string
  | Record_AAAA string
  | Record_NS string
  | Record_CNAME string
  | Record_MX int string
  | Record_SOA string string int int int int int
      \<comment> \<open>mname, rname, serial, refresh, retry, expire, minimum\<close>
  | Record_OTHER nat "string list"

record Record =
  r_data :: rdata
  r_ttl :: "int option"

fun rdata_TYPE :: "rdata \<Rightarrow> rrtype" where
  "rdata_TYPE (Record_A _) = dns_A"
| "rdata_TYPE (Record_AAAA _) = dns_AAAA"
| "rdata_TYPE (Record_NS _) = dns_NS"
| "rdata_TYPE (Record_CNAME _) = dns_CNAME"
| "rdata_TYPE (Record_MX _ _) = dns_MX"
| "rdata_TYPE (Record_SOA _ _ _ _ _ _ _) = dns_SOA"
| "rdata_TYPE (Record_OTHER n _) = dns_OTHER n"

definition TYPE_of :: "Record \<Rightarrow> rrtype" where
  "TYPE_of r = rdata_TYPE (r_data r)"

text \<open>\<open>rec.name.name\<close>: an attribute of the NS, CNAME and MX payloads only.\<close>

fun rdata_name :: "rdata \<Rightarrow> error + string" where
  "rdata_name (Record_NS n) = Inr n"
| "rdata_name (Record_CNAME n) = Inr n"
| "rdata_name (Record_MX _ n) = Inr n"
| "rdata_name _ = Inl AttributeError"

text \<open>\<open>soa[1].minimum\<close> and \<open>soa[1].expire\<close>: attributes of the SOA payload only.\<close>

fun rdata_minimum :: "rdata \<Rightarrow> error + int" where
  "rdata_minimum (Record_SOA _ _ _ _ _ _ m) = Inr m"
| "rdata_minimum _ = Inl AttributeError"

fun rdata_expire :: "rdata \<Rightarrow> error + int" where
  "rdata_expire (Record_SOA _ _ _ _ _ e _) = Inr e"
| "rdata_expire _ = Inl AttributeError"

text \<open>
  \<open>dns.RRHeader(name, type, cls, ttl, payload, auth)\<close>.  The payload of the SOA header
  built for a negative answer is \<open>self.soa[1]\<close>, which may be \<open>None\<close>.
\<close>

record RRHeader =
  rr_name :: string
  rr_type :: rrtype
  rr_cls :: rrclass
  rr_ttl :: int
  rr_payload :: "Record option"
  rr_auth :: bool

definition mkRRHeader ::
  "string \<Rightarrow> rrtype \<Rightarrow> rrclass \<Rightarrow> int \<Rightarrow> Record option \<Rightarrow> bool \<Rightarrow> RRHeader" where
  "mkRRHeader n t c l p a =
     \<lparr>rr_name = n, rr_type = t, rr_cls = c, rr_ttl = l, rr_payload = p, rr_auth = a\<rparr>"

subsection \<open>MemoryAuthority\<close>

text \<open>
  \<open>self.records\<close> is a dict from owner names to record lists.  It is an association list
  here, in the dict's iteration order, because \<open>lookupZone\<close> iterates over it;
  \<open>self.records.get(k)\<close> is \<open>map_of\<close>.  A dict holds every key once; the examples
  below do, and no theorem needs it.
\<close>

record MemoryAuthority =
  soa :: "string \<times> Record option"
  records :: "(string \<times> Record list) list"
  defaultTTLValue :: "int option"

text \<open>
  What the resolution engine calls in the \<open>dns\<close> module and the parser reads from it.
  The module is not part of the sources, so its functions and tables are parameters.
\<close>

record dns_module =
  isSubdomainOf :: "string \<Rightarrow> string \<Rightarrow> bool"
  QUERY_CLASSES_values :: "string list"
  QUERY_TYPES_values :: "string list"
  Record_class :: "string \<Rightarrow> (string list \<Rightarrow> error + rdata) option"
  str2time :: "string \<Rightarrow> error + int"

text \<open>The property \<open>_defaultTTL\<close>.\<close>

definition defaultTTL :: "MemoryAuthority \<Rightarrow> error + int" where
  "defaultTTL self =
     (case defaultTTLValue self of
        Some t \<Rightarrow> Inr t
      | None \<Rightarrow>
          (case snd (soa self) of
             None \<Rightarrow> Inl AttributeError
           | Some s \<Rightarrow>
               (case rdata_minimum (r_data s) of
                  Inl e \<Rightarrow> Inl e
                | Inr m \<Rightarrow>
                    (case rdata_expire (r_data s) of
                       Inl e \<Rightarrow> Inl e
                     | Inr x \<Rightarrow> Inr (max m x)))))"

text \<open>
  The test \<open>if record.ttl is not None: ttl = record.ttl else: ttl = self._defaultTTL\<close>
  of \<open>_lookup\<close> and \<open>lookupZone\<close>.
\<close>

definition ttl_is_not_None :: "MemoryAuthority \<Rightarrow> Record \<Rightarrow> error + int" where
  "ttl_is_not_None self r =
     (case r_ttl r of Some t \<Rightarrow> Inr t | None \<Rightarrow> defaultTTL self)"

text \<open>
  The expression \<open>rec.ttl or self._defaultTTL\<close> of \<open>_additionalRecords\<close>: \<open>None\<close> and
  \<open>0\<close> are both false.
\<close>

definition ttl_or_default :: "MemoryAuthority \<Rightarrow> Record \<Rightarrow> error + int" where
  "ttl_or_default self r =
     (case r_ttl r of
        Some t \<Rightarrow> if t \<noteq> 0 then Inr t else defaultTTL self
      | None \<Rightarrow> defaultTTL self)"

text \<open>
  \<open>_additionalRecords\<close>.  The inner loop, over \<open>self.records.get(name.lower(), ())\<close>:
\<close>

fun address_records ::
  "MemoryAuthority \<Rightarrow> string \<Rightarrow> Record list \<Rightarrow> error + RRHeader list" where
  "address_records self name [] = Inr []"
| "address_records self name (r # rs) =
     (if TYPE_of r \<in> {dns_A, dns_AAAA} then
        (case ttl_or_default self r of
           Inl e \<Rightarrow> Inl e
         | Inr t \<Rightarrow>
             (case address_records self name rs of
                Inl e \<Rightarrow> Inl e
              | Inr hs \<Rightarrow> Inr (mkRRHeader name (TYPE_of r) dns_IN t (Some r) True # hs)))
      else address_records self name rs)"

text \<open>The outer loop, over \<open>answer + authority\<close>:\<close>

fun additional_loop :: "MemoryAuthority \<Rightarrow> RRHeader list \<Rightarrow> error + RRHeader list" where
  "additional_loop self [] = Inr []"
| "additional_loop self (h # hs) =
     (if rr_type h \<in> {dns_CNAME, dns_MX, dns_NS} then
        (case rr_payload h of
           None \<Rightarrow> Inl AttributeError
         | Some p \<Rightarrow>
             (case rdata_name (r_data p) of
                Inl e \<Rightarrow> Inl e
              | Inr name \<Rightarrow>
                  (case address_records self name
                          (case map_of (records self) (lower name) of
                             None \<Rightarrow> [] | Some rs \<Rightarrow> rs) of
                     Inl e \<Rightarrow> Inl e
                   | Inr found \<Rightarrow>
                       (case additional_loop self hs of
                          Inl e \<Rightarrow> Inl e
                        | Inr further \<Rightarrow> Inr (found @ further)))))
      else additional_loop self hs)"

definition additionalRecords ::
  "MemoryAuthority \<Rightarrow> RRHeader list \<Rightarrow> RRHeader list \<Rightarrow> error + RRHeader list" where
  "additionalRecords self answer authority = additional_loop self (answer @ authority)"

text \<open>
  \<open>_lookup\<close>.  The loop over \<open>domain_records\<close> carries \<open>results\<close>, \<open>authority\<close>,
  \<open>cnames\<close> and the variable \<open>ttl\<close>, which is unbound before the first iteration.
\<close>

type_synonym pass_state = "RRHeader list \<times> RRHeader list \<times> RRHeader list \<times> int option"

fun record_pass ::
  "MemoryAuthority \<Rightarrow> string \<Rightarrow> rrtype \<Rightarrow> Record list \<Rightarrow> pass_state \<Rightarrow> error + pass_state"
  where
  "record_pass self name type [] st = Inr st"
| "record_pass self name type (r # rs) (results, authority, cnames, ttl) =
     (case ttl_is_not_None self r of
        Inl e \<Rightarrow> Inl e
      | Inr t \<Rightarrow>
          record_pass self name type rs
            (if TYPE_of r = dns_NS \<and> lower name \<noteq> lower (fst (soa self)) then results
             else if TYPE_of r = type \<or> type = dns_ALL_RECORDS then
               results @ [mkRRHeader name (TYPE_of r) dns_IN t (Some r) True]
             else results,
             if TYPE_of r = dns_NS \<and> lower name \<noteq> lower (fst (soa self)) then
               authority @ [mkRRHeader name (TYPE_of r) dns_IN t (Some r) False]
             else authority,
             if TYPE_of r = dns_CNAME then
               cnames @ [mkRRHeader name (TYPE_of r) dns_IN t (Some r) True]
             else cnames,
             Some t))"

text \<open>
  After the loop: CNAME substitution (\<open>if not results: results = cnames\<close>) and the
  additional processing, whose records go to \<open>results\<close> when \<open>cnames\<close> is not empty
  and to \<open>additional\<close> otherwise.  The state is now
  \<open>(results, authority, additional, ttl)\<close>.
\<close>

type_synonym sections_state =
  "RRHeader list \<times> RRHeader list \<times> RRHeader list \<times> int option"

definition synthesis :: "MemoryAuthority \<Rightarrow> pass_state \<Rightarrow> error + sections_state" where
  "synthesis self st =
     (case st of (results0, authority, cnames, ttl) \<Rightarrow>
        let results = (if results0 = [] then cnames else results0) in
        (case additionalRecords self results authority of
           Inl e \<Rightarrow> Inl e
         | Inr additionalInformation \<Rightarrow>
             if cnames \<noteq> [] then Inr (results @ additionalInformation, authority, [], ttl)
             else Inr (results, authority, additionalInformation, ttl)))"

text \<open>The empty response: \<open>if not results and not authority\<close>, and the return.\<close>

definition negative_answer ::
  "MemoryAuthority \<Rightarrow> sections_state \<Rightarrow>
     error + (RRHeader list \<times> RRHeader list \<times> RRHeader list)" where
  "negative_answer self st =
     (case st of (results, authority, additional, ttl) \<Rightarrow>
        if results = [] \<and> authority = [] then
          (case ttl of
             None \<Rightarrow> Inl UnboundLocalError
           | Some t \<Rightarrow>
               Inr (results,
                    authority @
                      [mkRRHeader (fst (soa self)) dns_SOA dns_IN t (snd (soa self)) True],
                    additional))
        else Inr (results, authority, additional))"

definition lookup ::
  "dns_module \<Rightarrow> MemoryAuthority \<Rightarrow> string \<Rightarrow> rrclass \<Rightarrow> rrtype \<Rightarrow>
     error + (RRHeader list \<times> RRHeader list \<times> RRHeader list)" where
  "lookup dns self name cls type =
     (let domain_records = map_of (records self) (lower name)
      in if domain_records \<noteq> None \<and> domain_records \<noteq> Some [] then
           (case record_pass self name type (the domain_records) ([], [], [], None) of
              Inl e \<Rightarrow> Inl e
            | Inr st \<Rightarrow>
                (case synthesis self st of
                   Inl e \<Rightarrow> Inl e
                 | Inr st' \<Rightarrow> negative_answer self st'))
         else if isSubdomainOf dns name (fst (soa self)) then
           Inl (AuthoritativeDomainError name)
         else Inl (DomainError name))"

text \<open>
  \<open>lookupZone\<close>.  The inner loop \<open>for rec in r\<close> computes \<open>ttl\<close> before it tests
  \<open>rec.TYPE != dns.SOA\<close>; the outer loop runs over \<open>self.records.items()\<close>.
\<close>

fun zone_records ::
  "MemoryAuthority \<Rightarrow> string \<Rightarrow> Record list \<Rightarrow> RRHeader list \<Rightarrow> error + RRHeader list" where
  "zone_records self k [] results = Inr results"
| "zone_records self k (rec # r) results =
     (case ttl_is_not_None self rec of
        Inl e \<Rightarrow> Inl e
      | Inr t \<Rightarrow>
          zone_records self k r
            (if TYPE_of rec \<noteq> dns_SOA then
               results @ [mkRRHeader k (TYPE_of rec) dns_IN t (Some rec) True]
             else results))"

fun zone_items ::
  "MemoryAuthority \<Rightarrow> (string \<times> Record list) list \<Rightarrow> RRHeader list \<Rightarrow> error + RRHeader list"
  where
  "zone_items self [] results = Inr results"
| "zone_items self ((k, r) # items) results =
     (case zone_records self k r results of
        Inl e \<Rightarrow> Inl e
      | Inr results' \<Rightarrow> zone_items self items results')"

definition lookupZone ::
  "MemoryAuthority \<Rightarrow> string \<Rightarrow> error + (RRHeader list \<times> RRHeader list \<times> RRHeader list)"
  where
  "lookupZone self name =
     (if lower (fst (soa self)) = lower name then
        (case snd (soa self) of
           None \<Rightarrow> Inl AttributeError
         | Some s \<Rightarrow>
             (case ttl_is_not_None self s of
                Inl e \<Rightarrow> Inl e
              | Inr soa_ttl \<Rightarrow>
                  (case zone_items self (records self)
                          [mkRRHeader (fst (soa self)) dns_SOA dns_IN soa_ttl (Some s) True] of
                     Inl e \<Rightarrow> Inl e
                   | Inr results \<Rightarrow>
                       (case results of
                          [] \<Rightarrow> Inl IndexError
                        | first # _ \<Rightarrow> Inr (results @ [first], [], [])))))
      else Inl (DomainError name))"

subsection \<open>BindAuthority: the zone-file parser\<close>

text \<open>
  The string methods the parser uses: \<open>find\<close> (\<open>None\<close> is Python's \<open>-1\<close>), \<open>strip\<close>,
  \<open>split\<close> without argument, \<open>isdigit\<close>, \<open>int\<close> on a string of digits and
  \<open>endswith('.')\<close>.
\<close>

fun str_find :: "char \<Rightarrow> string \<Rightarrow> nat option" where
  "str_find c [] = None"
| "str_find c (x # xs) =
     (if x = c then Some 0
      else (case str_find c xs of None \<Rightarrow> None | Some i \<Rightarrow> Some (Suc i)))"

definition isspace :: "char \<Rightarrow> bool" where
  "isspace c = ((of_char c :: nat) \<in> {9, 10, 11, 12, 13, 32})"

definition strip :: "string \<Rightarrow> string" where
  "strip s = rev (dropWhile isspace (rev (dropWhile isspace s)))"

fun split_acc :: "string \<Rightarrow> string \<Rightarrow> string list" where
  "split_acc cur [] = (if cur = [] then [] else [cur])"
| "split_acc cur (c # cs) =
     (if isspace c then (if cur = [] then split_acc [] cs else cur # split_acc [] cs)
      else split_acc (cur @ [c]) cs)"

definition str_split :: "string \<Rightarrow> string list" where
  "str_split s = split_acc [] s"

definition is_digit_char :: "char \<Rightarrow> bool" where
  "is_digit_char c = (let n = (of_char c :: nat) in 48 \<le> n \<and> n \<le> 57)"

definition isdigit :: "string \<Rightarrow> bool" where
  "isdigit s = (s \<noteq> [] \<and> list_all is_digit_char s)"

definition int_of_digits :: "string \<Rightarrow> int" where
  "int_of_digits s = foldl (\<lambda>acc c. acc * 10 + (int (of_char c) - 48)) 0 s"

definition endswith_dot :: "string \<Rightarrow> bool" where
  "endswith_dot s = (s \<noteq> [] \<and> last s = CHR ''.'')"

text \<open>\<open>stripComments\<close>: the expression \<open>a.find(';') == -1 and a or a[:a.find(';')]\<close>.\<close>

definition stripComments :: "string list \<Rightarrow> string list" where
  "stripComments lines =
     map (\<lambda>b. let a = strip b
               in (case str_find CHR '';'' a of
                     None \<Rightarrow> if a \<noteq> [] then a else butlast a
                   | Some i \<Rightarrow> take i a))
         lines"

text \<open>
  \<open>collapseContinuations\<close>.  The first loop carries \<open>L\<close> and \<open>state\<close>; \<open>L[-1] += ...\<close>
  raises \<open>IndexError\<close> on an empty \<open>L\<close>.
\<close>

fun collapse_loop :: "string list \<Rightarrow> string list \<Rightarrow> nat \<Rightarrow> error + string list" where
  "collapse_loop [] L state = Inr L"
| "collapse_loop (line # lines) L state =
     (if state = 0 then
        (case str_find CHR ''('' line of
           None \<Rightarrow> collapse_loop lines (L @ [line]) state
         | Some i \<Rightarrow> collapse_loop lines (L @ [take i line]) 1)
      else
        (case str_find CHR '')'' line of
           Some i \<Rightarrow>
             (if L = [] then Inl IndexError
              else collapse_loop lines (butlast L @ [last L @ '' '' @ take i line]) 0)
         | None \<Rightarrow>
             (if L = [] then Inl IndexError
              else collapse_loop lines (butlast L @ [last L @ '' '' @ line]) state)))"

definition collapseContinuations :: "string list \<Rightarrow> error + string list list" where
  "collapseContinuations lines =
     (case collapse_loop lines [] 0 of
        Inl e \<Rightarrow> Inl e
      | Inr L \<Rightarrow> Inr (filter (\<lambda>tokens. tokens \<noteq> []) (map str_split L)))"

text \<open>
  \<open>class_IN\<close>.  \<open>self.records.setdefault(key, []).append(r)\<close> appends to the list of an
  existing key and adds a new key otherwise (placed last in the association list).
\<close>

fun setdefault_append ::
  "string \<Rightarrow> Record \<Rightarrow> (string \<times> Record list) list \<Rightarrow> (string \<times> Record list) list" where
  "setdefault_append key r [] = [(key, [r])]"
| "setdefault_append key r ((k, rs) # kvs) =
     (if k = key then (k, rs @ [r]) # kvs else (k, rs) # setdefault_append key r kvs)"

definition class_IN ::
  "dns_module \<Rightarrow> int \<Rightarrow> string \<Rightarrow> string \<Rightarrow> string list \<Rightarrow> MemoryAuthority \<Rightarrow>
     error + MemoryAuthority" where
  "class_IN dns ttl type domain rdata self =
     (case Record_class dns type of
        None \<Rightarrow> Inl (NotImplementedError type)
      | Some record \<Rightarrow>
          (case record rdata of
             Inl e \<Rightarrow> Inl e
           | Inr d \<Rightarrow>
               let r = \<lparr>r_data = d, r_ttl = Some ttl\<rparr>;
                   self' = self\<lparr>records := setdefault_append (lower domain) r (records self)\<rparr>
               in Inr (if type = ''SOA'' then self'\<lparr>soa := (domain, Some r)\<rparr> else self')))"

text \<open>\<open>addRecord\<close>: \<open>class_IN\<close> is the only \<open>class_...\<close> method there is.\<close>

definition addRecord ::
  "dns_module \<Rightarrow> string \<Rightarrow> int \<Rightarrow> string \<Rightarrow> string \<Rightarrow> string \<Rightarrow> string list \<Rightarrow>
     MemoryAuthority \<Rightarrow> error + MemoryAuthority" where
  "addRecord dns owner ttl type domain cls rdata self =
     (let domain' = (if \<not> endswith_dot domain then domain @ ''.'' @ owner else butlast domain)
      in if cls = ''IN'' then class_IN dns ttl type domain' rdata self
         else Inl (NotImplementedError cls))"

text \<open>
  \<open>parseRecordLine\<close>, one definition for each of its \<open>if\<close> statements.  Every \<open>line[0]\<close>
  raises \<open>IndexError\<close> on an empty token list.
\<close>

definition MARKERS :: "dns_module \<Rightarrow> string list" where
  "MARKERS dns = QUERY_CLASSES_values dns @ QUERY_TYPES_values dns"

text \<open>The first \<open>if\<close>: the result is \<open>(owner, line)\<close>; \<open>owner\<close> starts as \<open>origin\<close>.\<close>

definition parse_owner ::
  "dns_module \<Rightarrow> string \<Rightarrow> string list \<Rightarrow> error + (string \<times> string list)" where
  "parse_owner dns origin line =
     (case line of
        [] \<Rightarrow> Inl IndexError
      | t # rest \<Rightarrow>
          if t = ''@'' then Inr (origin, rest)
          else if \<not> isdigit t \<and> t \<notin> set (MARKERS dns) then Inr (t, rest)
          else Inr (origin, line))"

text \<open>The second \<open>if\<close>: the result is \<open>(domain, owner, line)\<close>.\<close>

definition parse_domain ::
  "dns_module \<Rightarrow> string \<Rightarrow> string \<Rightarrow> string list \<Rightarrow>
     error + (string \<times> string \<times> string list)" where
  "parse_domain dns origin owner line =
     (case line of
        [] \<Rightarrow> Inl IndexError
      | t # rest \<Rightarrow>
          if isdigit t \<or> t \<in> set (MARKERS dns) then Inr (owner, origin, line)
          else Inr (t, owner, rest))"

text \<open>The third \<open>if\<close>: the result is \<open>(cls, ttl, line)\<close>; \<open>cls\<close> starts as \<open>'IN'\<close>.\<close>

definition parse_cls_ttl ::
  "dns_module \<Rightarrow> int \<Rightarrow> string list \<Rightarrow> error + (string \<times> int \<times> string list)" where
  "parse_cls_ttl dns ttl line =
     (case line of
        [] \<Rightarrow> Inl IndexError
      | t # rest \<Rightarrow>
          if t \<in> set (QUERY_CLASSES_values dns) then
            (case rest of
               [] \<Rightarrow> Inl IndexError
             | u # rest' \<Rightarrow>
                 if isdigit u then Inr (t, int_of_digits u, rest') else Inr (t, ttl, rest))
          else if isdigit t then
            (case rest of
               [] \<Rightarrow> Inl IndexError
             | u # rest' \<Rightarrow>
                 if u \<in> set (QUERY_CLASSES_values dns) then Inr (u, int_of_digits t, rest')
                 else Inr (''IN'', int_of_digits t, rest))
          else Inr (''IN'', ttl, line))"

definition parseRecordLine ::
  "dns_module \<Rightarrow> string \<Rightarrow> int \<Rightarrow> string list \<Rightarrow> MemoryAuthority \<Rightarrow>
     error + MemoryAuthority" where
  "parseRecordLine dns origin ttl line self =
     (case parse_owner dns origin line of
        Inl e \<Rightarrow> Inl e
      | Inr (owner0, line1) \<Rightarrow>
          (case parse_domain dns origin owner0 line1 of
             Inl e \<Rightarrow> Inl e
           | Inr (domain, owner, line2) \<Rightarrow>
               (case parse_cls_ttl dns ttl line2 of
                  Inl e \<Rightarrow> Inl e
                | Inr (cls, ttl', line3) \<Rightarrow>
                    (case line3 of
                       [] \<Rightarrow> Inl IndexError
                     | type # rdata \<Rightarrow> addRecord dns owner ttl' type domain cls rdata self))))"

text \<open>
  \<open>parseLines\<close>: the loop carries \<open>TTL\<close>, \<open>ORIGIN\<close> and the authority that
  \<open>parseRecordLine\<close> mutates.
\<close>

fun parseLines_loop ::
  "dns_module \<Rightarrow> string list list \<Rightarrow> int \<Rightarrow> string \<Rightarrow> MemoryAuthority \<Rightarrow>
     error + MemoryAuthority" where
  "parseLines_loop dns [] TTL ORIGIN self = Inr self"
| "parseLines_loop dns (line # lines) TTL ORIGIN self =
     (case line of
        [] \<Rightarrow> Inl IndexError
      | t # rest \<Rightarrow>
          if t = ''$TTL'' then
            (case rest of
               [] \<Rightarrow> Inl IndexError
             | v # _ \<Rightarrow>
                 (case str2time dns v of
                    Inl e \<Rightarrow> Inl e
                  | Inr TTL' \<Rightarrow> parseLines_loop dns lines TTL' ORIGIN self))
          else if t = ''$ORIGIN'' then
            (case rest of
               [] \<Rightarrow> Inl IndexError
             | v # _ \<Rightarrow> parseLines_loop dns lines TTL v self)
          else if t = ''$INCLUDE'' then
            Inl (NotImplementedError ''$INCLUDE directive not implemented'')
          else if t = ''$GENERATE'' then
            Inl (NotImplementedError ''$GENERATE directive not implemented'')
          else
            (case parseRecordLine dns ORIGIN TTL line self of
               Inl e \<Rightarrow> Inl e
             | Inr self' \<Rightarrow> parseLines_loop dns lines TTL ORIGIN self'))"

definition parseLines ::
  "dns_module \<Rightarrow> string \<Rightarrow> string list list \<Rightarrow> MemoryAuthority \<Rightarrow> error + MemoryAuthority"
  where
  "parseLines dns origin lines self =
     parseLines_loop dns lines (60 * 60 * 3) origin (self\<lparr>records := []\<rparr>)"

text \<open>
  \<open>loadFile\<close> on the lines of the file, for an authority fresh from
  \<open>MemoryAuthority.__init__(self)\<close>; \<open>basename\<close> is \<open>os.path.basename(filename)\<close>.
\<close>

definition init_MemoryAuthority :: MemoryAuthority where
  "init_MemoryAuthority = \<lparr>soa = ('''', None), records = [], defaultTTLValue = None\<rparr>"

definition loadFile :: "dns_module \<Rightarrow> string \<Rightarrow> string list \<Rightarrow> error + MemoryAuthority" where
  "loadFile dns basename lines =
     (case collapseContinuations (stripComments lines) of
        Inl e \<Rightarrow> Inl e
      | Inr lines' \<Rightarrow> parseLines dns (basename @ ''.'') lines' init_MemoryAuthority)"

subsection \<open>The \<open>dns\<close> module of the examples\<close>

text \<open>
  Modelled from the spec: \<open>dns._isSubdomainOf\<close> is not part of the sources.  The spec
  says "a subdomain of (or equal to) the zone apex", names being compared
  case-insensitively: the labels of the apex are the last labels of the name.
\<close>

fun split_dots :: "string \<Rightarrow> string \<Rightarrow> string list" where
  "split_dots cur [] = [cur]"
| "split_dots cur (c # cs) =
     (if c = CHR ''.'' then cur # split_dots [] cs else split_dots (cur @ [c]) cs)"

definition nameToLabels :: "string \<Rightarrow> string list" where
  "nameToLabels name =
     (if name = [] \<or> name = ''.'' then [[]]
      else let labels = split_dots [] name
           in if last labels \<noteq> [] then labels @ [[]] else labels)"

definition spec_isSubdomainOf :: "string \<Rightarrow> string \<Rightarrow> bool" where
  "spec_isSubdomainOf descendantName ancestorName =
     (let descendantLabels = nameToLabels (lower descendantName);
          ancestorLabels = nameToLabels (lower ancestorName)
      in drop (length descendantLabels - length ancestorLabels) descendantLabels
           = ancestorLabels)"

text \<open>
  Modelled from the spec: \<open>dns.str2time\<close> is not part of the sources.  The spec says
  only that \<open>$TTL <value>\<close> updates the default TTL; a value of digits is that number of
  seconds.
\<close>

definition spec_str2time :: "string \<Rightarrow> error + int" where
  "spec_str2time s = (if isdigit s then Inr (int_of_digits s) else Inl ValueError)"

text \<open>
  Modelled from the spec: the constructors \<open>dns.Record_SOA\<close>, \<open>dns.Record_NS\<close>, ... are
  not part of the sources.  The spec names the minimum set SOA, NS, A, AAAA, CNAME, MX;
  each constructor takes the positional rdata tokens of its type.
\<close>

fun spec_Record_class :: "string \<Rightarrow> (string list \<Rightarrow> error + rdata) option" where
  "spec_Record_class type =
     (if type = ''A'' then
        Some (\<lambda>rdata. case rdata of [a] \<Rightarrow> Inr (Record_A a) | _ \<Rightarrow> Inl TypeError)
      else if type = ''AAAA'' then
        Some (\<lambda>rdata. case rdata of [a] \<Rightarrow> Inr (Record_AAAA a) | _ \<Rightarrow> Inl TypeError)
      else if type = ''NS'' then
        Some (\<lambda>rdata. case rdata of [n] \<Rightarrow> Inr (Record_NS n) | _ \<Rightarrow> Inl TypeError)
      else if type = ''CNAME'' then
        Some (\<lambda>rdata. case rdata of [n] \<Rightarrow> Inr (Record_CNAME n) | _ \<Rightarrow> Inl TypeError)
      else if type = ''MX'' then
        Some (\<lambda>rdata. case rdata of
                [p, n] \<Rightarrow> if isdigit p then Inr (Record_MX (int_of_digits p) n)
                           else Inl ValueError
              | _ \<Rightarrow> Inl TypeError)
      else if type = ''SOA'' then
        Some (\<lambda>rdata. case rdata of
                [mname, rname, serial, refresh, retry, expire, minimum] \<Rightarrow>
                  if list_all isdigit [serial, refresh, retry, expire, minimum] then
                    Inr (Record_SOA mname rname (int_of_digits serial) (int_of_digits refresh)
                           (int_of_digits retry) (int_of_digits expire)
                           (int_of_digits minimum))
                  else Inl ValueError
              | _ \<Rightarrow> Inl TypeError)
      else None)"

text \<open>
  Modelled from the spec: the tables \<open>dns.QUERY_CLASSES\<close> and \<open>dns.QUERY_TYPES\<close> are not
  part of the sources.  The spec names the classes IN, CH and HS and the types above.
\<close>

definition spec_dns :: dns_module where
  "spec_dns =
     \<lparr>isSubdomainOf = spec_isSubdomainOf,
      QUERY_CLASSES_values = [''IN'', ''CH'', ''HS''],
      QUERY_TYPES_values = [''SOA'', ''NS'', ''A'', ''AAAA'', ''CNAME'', ''MX''],
      Record_class = spec_Record_class,
      str2time = spec_str2time\<rparr>"

subsection \<open>Example zones\<close>

definition soa_record :: Record where
  "soa_record =
     \<lparr>r_data = Record_SOA ''ns1.example.com'' ''admin.example.com'' 2020010100 3600 600 604800 3600,
      r_ttl = None\<rparr>"

definition a_record :: "string \<Rightarrow> int option \<Rightarrow> Record" where
  "a_record address t = \<lparr>r_data = Record_A address, r_ttl = t\<rparr>"

definition cname_record :: "string \<Rightarrow> Record" where
  "cname_record target = \<lparr>r_data = Record_CNAME target, r_ttl = None\<rparr>"

definition mx_record :: "string \<Rightarrow> int option \<Rightarrow> Record" where
  "mx_record exchange t = \<lparr>r_data = Record_MX 10 exchange, r_ttl = t\<rparr>"

definition txt_record :: Record where
  "txt_record = \<lparr>r_data = Record_OTHER 16 [''hello''], r_ttl = Some 0\<rparr>"

text \<open>
  A zone \<open>example.com\<close> with a default TTL of 3600 seconds.  The apex has an MX and a
  CNAME record besides the SOA record, the address record of \<open>mail.example.com\<close> has
  the explicit TTL 0, and \<open>empty.example.com\<close> is a key with no records.
\<close>

definition example_zone :: MemoryAuthority where
  "example_zone =
     \<lparr>soa = (''example.com'', Some soa_record),
      records =
        [(''example.com'',
            [soa_record, mx_record ''mail.example.com'' None, cname_record ''www.example.com'']),
         (''www.example.com'', [a_record ''10.0.0.1'' (Some 300)]),
         (''mail.example.com'', [a_record ''10.0.0.2'' (Some 0)]),
         (''alias.example.com'', [cname_record ''www.example.com'']),
         (''mx.example.com'', [mx_record ''mail.example.com'' (Some 60)]),
         (''empty.example.com'', []),
         (''txt.example.com'', [txt_record])],
      defaultTTLValue = Some 3600\<rparr>"

text \<open>
  A zone for the negative answer.  The records of \<open>txt.example.com\<close> are a record with
  the explicit TTL 0 followed by one without a TTL; those of \<open>info.example.com\<close> are a
  record without a TTL followed by one with the explicit TTL 120.  The zone default is
  3600 seconds.
\<close>

definition other_record :: "string \<Rightarrow> int option \<Rightarrow> Record" where
  "other_record content t = \<lparr>r_data = Record_OTHER 16 [content], r_ttl = t\<rparr>"

definition negative_zone :: MemoryAuthority where
  "negative_zone =
     \<lparr>soa = (''example.com'', Some soa_record),
      records =
        [(''example.com'', [soa_record]),
         (''txt.example.com'', [other_record ''hello'' (Some 0), other_record ''world'' None]),
         (''info.example.com'', [other_record ''left'' None, other_record ''right'' (Some 120)])],
      defaultTTLValue = Some 3600\<rparr>"

text \<open>
  A zone file in three versions: the SOA record on one physical line, and the same record
  split after the opening parenthesis.
\<close>

definition soa_one_line :: "string list" where
  "soa_one_line = [''@ IN SOA ns1 admin ( 2020010100 3600 600 604800 3600 )'']"

definition soa_split_lines :: "string list" where
  "soa_split_lines = [''@ IN SOA ns1 admin ('', ''2020010100 3600 600'', ''604800 3600 )'']"


subsection \<open>What the claims speak of\<close>

text \<open>
  The TTL a header gets from a record when the zone default is \<open>d\<close>: the record's own TTL
  if it is set, else \<open>d\<close>.
\<close>

definition ttl_value :: "int \<Rightarrow> Record \<Rightarrow> int" where
  "ttl_value d r = (case r_ttl r of Some t \<Rightarrow> t | None \<Rightarrow> d)"

text \<open>
  The (owner name, record) pairs of the store in iteration order, and those whose record
  is not an SOA record.
\<close>

definition store_pairs :: "MemoryAuthority \<Rightarrow> (string \<times> Record) list" where
  "store_pairs self = concat (map (\<lambda>(k, r). map (Pair k) r) (records self))"

definition non_SOA_pairs :: "MemoryAuthority \<Rightarrow> (string \<times> Record) list" where
  "non_SOA_pairs self = filter (\<lambda>(k, rec). TYPE_of rec \<noteq> dns_SOA) (store_pairs self)"

definition zone_header :: "int \<Rightarrow> string \<times> Record \<Rightarrow> RRHeader" where
  "zone_header d = (\<lambda>(k, rec). mkRRHeader k (TYPE_of rec) dns_IN (ttl_value d rec) (Some rec) True)"

text \<open>
  The domain normalization of the claims: a domain that ends with a dot loses the dot,
  any other domain gets a dot and the suffix appended.
\<close>

definition normalized_domain :: "string \<Rightarrow> string \<Rightarrow> string" where
  "normalized_domain domain suffix =
     (if endswith_dot domain then butlast domain else domain @ ''.'' @ suffix)"

text \<open>
  A name token is a token that is neither numeric nor a class or type keyword.  The
  domain and the suffix of a record line, read off its first two tokens:
  \<^item> after a leading \<open>@\<close>, the domain is the second token if that is a name token and
    the origin otherwise, and the suffix is the origin;
  \<^item> after a leading name token, the domain is the second token and the suffix the
    first if the second is a name token too (\<open>@\<close> counts as one here); otherwise the
    domain is the first token and the suffix is the origin;
  \<^item> in every other case both are the origin.
\<close>

definition is_name_token :: "dns_module \<Rightarrow> string \<Rightarrow> bool" where
  "is_name_token dns t = (\<not> isdigit t \<and> t \<notin> set (MARKERS dns))"

fun line_domain_suffix :: "dns_module \<Rightarrow> string \<Rightarrow> string list \<Rightarrow> string \<times> string" where
  "line_domain_suffix dns origin (t0 # t1 # rest) =
     (if t0 = ''@'' then
        (if is_name_token dns t1 then (t1, origin) else (origin, origin))
      else if is_name_token dns t0 then
        (if is_name_token dns t1 then (t1, t0) else (t0, origin))
      else (origin, origin))"
| "line_domain_suffix dns origin line = (origin, origin)"

section \<open>The resolution engine\<close>

subsection \<open>Names that the store does not answer for\<close>

text \<open>
  C2.  When the lower-cased query name is not a key of the store, \<open>_lookup\<close> fails: with
  \<open>AuthoritativeDomainError(name)\<close> (the spec's NotAuthoritative) if
  \<open>dns._isSubdomainOf(name, self.soa[0])\<close> holds, and with \<open>DomainError(name)\<close> (the
  spec's NotInZone) otherwise.  It returns no sections in either case.
\<close>

theorem lookup_absent_fails:
  assumes "map_of (records self) (lower name) = None"
  shows "lookup dns self name cls type =
           (if isSubdomainOf dns name (fst (soa self)) then Inl (AuthoritativeDomainError name)
            else Inl (DomainError name))
         \<and> (\<forall>sections. lookup dns self name cls type \<noteq> Inr sections)"
  using assms by (simp add: lookup_def)

theorem lookup_absent_fails_witness:
  "map_of (records example_zone) (lower ''missing.example.com'') = None
   \<and> lookup spec_dns example_zone ''missing.example.com'' dns_IN dns_A
       = Inl (AuthoritativeDomainError ''missing.example.com'')
   \<and> map_of (records example_zone) (lower ''other.org'') = None
   \<and> lookup spec_dns example_zone ''other.org'' dns_IN dns_A = Inl (DomainError ''other.org'')"
proof -
  have h1: "map_of (records example_zone) (lower ''missing.example.com'') = None"
    by code_simp
  have h2: "map_of (records example_zone) (lower ''other.org'') = None"
    by code_simp
  have s1: "isSubdomainOf spec_dns ''missing.example.com'' (fst (soa example_zone))"
    by code_simp
  have s2: "\<not> isSubdomainOf spec_dns ''other.org'' (fst (soa example_zone))"
    by code_simp
  from lookup_absent_fails [OF h1, of spec_dns dns_IN dns_A]
       lookup_absent_fails [OF h2, of spec_dns dns_IN dns_A] h1 h2 s1 s2
  show ?thesis by simp
qed

lemma map_of_filter_other_key:
  "map_of (filter (\<lambda>kv. fst kv \<noteq> k) xs) k = None"
  by (induction xs) auto

text \<open>
  C10.  A key that is present with an empty record list is treated as an absent one: the
  test \<open>if domain_records:\<close> is false for the empty list, so \<open>_lookup\<close> fails as in C2
  and builds no SOA negative answer.  The result is the one of the same store with the
  key removed.
\<close>

theorem lookup_empty_entry_as_absent:
  assumes "map_of (records self) (lower name) = Some []"
  shows "lookup dns self name cls type =
           (if isSubdomainOf dns name (fst (soa self)) then Inl (AuthoritativeDomainError name)
            else Inl (DomainError name))
         \<and> map_of (filter (\<lambda>kv. fst kv \<noteq> lower name) (records self)) (lower name) = None
         \<and> lookup dns self name cls type =
             lookup dns (self\<lparr>records := filter (\<lambda>kv. fst kv \<noteq> lower name) (records self)\<rparr>)
               name cls type"
  using assms by (simp add: lookup_def map_of_filter_other_key)

theorem lookup_empty_entry_as_absent_witness:
  "map_of (records example_zone) (lower ''empty.example.com'') = Some []
   \<and> lookup spec_dns example_zone ''empty.example.com'' dns_IN dns_A
       = Inl (AuthoritativeDomainError ''empty.example.com'')"
proof -
  have h: "map_of (records example_zone) (lower ''empty.example.com'') = Some []"
    by code_simp
  have s: "isSubdomainOf spec_dns ''empty.example.com'' (fst (soa example_zone))"
    by code_simp
  from lookup_empty_entry_as_absent [OF h, of spec_dns dns_IN dns_A] h s
  show ?thesis by simp
qed

subsection \<open>The negative answer\<close>

text \<open>
  After a loop over a non-empty record list the variable \<open>ttl\<close> is bound, to the TTL
  computed for the last record.
\<close>

lemma record_pass_last_ttl:
  "record_pass self name type rs st = Inr (results, authority, cnames, ttl) \<Longrightarrow> rs \<noteq> [] \<Longrightarrow>
     \<exists>t. ttl = Some t \<and> ttl_is_not_None self (last rs) = Inr t"
proof (induction rs arbitrary: st)
  case Nil
  then show ?case by simp
next
  case (Cons r rs)
  obtain a b c d where st: "st = (a, b, c, d)" by (cases st) auto
  from Cons.prems(1) obtain t where t: "ttl_is_not_None self r = Inr t"
    by (auto simp: st split: sum.splits)
  show ?case
  proof (cases "rs = []")
    case True
    with Cons.prems(1) t show ?thesis by (simp add: st)
  next
    case False
    with Cons.prems(1) t Cons.IH show ?thesis by (simp add: st)
  qed
qed

text \<open>
  C3.  For a query on an owner name with a non-empty record list (the record pass runs
  for no other): when the record pass and the additional processing leave both
  \<open>answer\<close> and \<open>authority\<close> empty, \<open>_lookup\<close> returns the zone's SOA record as the
  only entry of \<open>authority\<close>, in a header whose TTL \<open>t\<close> is the TTL of the last record
  of the list: that record's own TTL if it is set, else the zone default.
\<close>

theorem lookup_negative_answer_soa:
  assumes present: "map_of (records self) (lower name) = Some rs" and nonempty: "rs \<noteq> []"
    and pass: "record_pass self name type rs ([], [], [], None) = Inr st"
    and synth: "synthesis self st = Inr (answer, authority, additional, ttl)"
    and empty: "answer = []" "authority = []"
  shows "\<exists>t. (r_ttl (last rs) = Some t \<or> (r_ttl (last rs) = None \<and> defaultTTL self = Inr t))
           \<and> lookup dns self name cls type =
               Inr ([], [mkRRHeader (fst (soa self)) dns_SOA dns_IN t (snd (soa self)) True],
                    additional)"
proof -
  obtain a b c d where st: "st = (a, b, c, d)" by (cases st) auto
  from synth have d: "d = ttl"
    by (auto simp: st synthesis_def Let_def split: sum.splits if_splits)
  from record_pass_last_ttl [OF pass [unfolded st] nonempty] d
  obtain t where t: "ttl = Some t" "ttl_is_not_None self (last rs) = Inr t" by auto
  from t(2) have own_or_default:
    "r_ttl (last rs) = Some t \<or> (r_ttl (last rs) = None \<and> defaultTTL self = Inr t)"
    by (cases "r_ttl (last rs)") (simp_all add: ttl_is_not_None_def)
  have "lookup dns self name cls type =
          Inr ([], [mkRRHeader (fst (soa self)) dns_SOA dns_IN t (snd (soa self)) True], additional)"
    using present nonempty pass synth empty t(1)
    by (simp add: lookup_def negative_answer_def)
  with own_or_default show ?thesis by blast
qed

text \<open>
  Two queries on the zone for the negative answer.  The last record of
  \<open>txt.example.com\<close> has no TTL and the first has TTL 0: the SOA header gets the zone
  default 3600.  The last record of \<open>info.example.com\<close> has TTL 120 and the first has
  none: the SOA header gets 120.
\<close>

theorem lookup_negative_answer_soa_witness:
  "map_of (records negative_zone) (lower ''txt.example.com'')
      = Some [other_record ''hello'' (Some 0), other_record ''world'' None]
   \<and> r_ttl (last [other_record ''hello'' (Some 0), other_record ''world'' None]) = None
   \<and> defaultTTL negative_zone = Inr 3600
   \<and> lookup spec_dns negative_zone ''txt.example.com'' dns_IN dns_A =
       Inr ([], [mkRRHeader ''example.com'' dns_SOA dns_IN 3600 (Some soa_record) True], [])
   \<and> map_of (records negative_zone) (lower ''info.example.com'')
      = Some [other_record ''left'' None, other_record ''right'' (Some 120)]
   \<and> r_ttl (last [other_record ''left'' None, other_record ''right'' (Some 120)]) = Some 120
   \<and> lookup spec_dns negative_zone ''info.example.com'' dns_IN dns_A =
       Inr ([], [mkRRHeader ''example.com'' dns_SOA dns_IN 120 (Some soa_record) True], [])"
proof -
  let ?first = "[other_record ''hello'' (Some 0), other_record ''world'' None]"
  let ?second = "[other_record ''left'' None, other_record ''right'' (Some 120)]"
  have s: "soa negative_zone = (''example.com'', Some soa_record)" by code_simp
  have d: "defaultTTL negative_zone = Inr 3600" by code_simp
  have a1: "map_of (records negative_zone) (lower ''txt.example.com'') = Some ?first"
    by code_simp
  have a2: "?first \<noteq> []" by simp
  have a3: "record_pass negative_zone ''txt.example.com'' dns_A ?first ([], [], [], None)
              = Inr ([], [], [], Some 3600)"
    by code_simp
  have a4: "synthesis negative_zone ([], [], [], Some 3600) = Inr ([], [], [], Some 3600)"
    by code_simp
  have a5: "r_ttl (last ?first) = None" by code_simp
  have b1: "map_of (records negative_zone) (lower ''info.example.com'') = Some ?second"
    by code_simp
  have b2: "?second \<noteq> []" by simp
  have b3: "record_pass negative_zone ''info.example.com'' dns_A ?second ([], [], [], None)
              = Inr ([], [], [], Some 120)"
    by code_simp
  have b4: "synthesis negative_zone ([], [], [], Some 120) = Inr ([], [], [], Some 120)"
    by code_simp
  have b5: "r_ttl (last ?second) = Some 120" by code_simp
  from lookup_negative_answer_soa [OF a1 a2 a3 a4 refl refl, of spec_dns dns_IN] a5 d s
  have r1: "lookup spec_dns negative_zone ''txt.example.com'' dns_IN dns_A =
      Inr ([], [mkRRHeader ''example.com'' dns_SOA dns_IN 3600 (Some soa_record) True], [])"
    by auto
  from lookup_negative_answer_soa [OF b1 b2 b3 b4 refl refl, of spec_dns dns_IN] b5 s
  have r2: "lookup spec_dns negative_zone ''info.example.com'' dns_IN dns_A =
      Inr ([], [mkRRHeader ''example.com'' dns_SOA dns_IN 120 (Some soa_record) True], [])"
    by auto
  from a1 a5 d r1 b1 b5 r2 show ?thesis by blast
qed

subsection \<open>Zone transfer\<close>

lemma defaultTTL_of_SOA:
  "snd (soa self) = Some s \<Longrightarrow> TYPE_of s = dns_SOA \<Longrightarrow> \<exists>d. defaultTTL self = Inr d"
  by (cases "r_data s") (auto simp: defaultTTL_def TYPE_of_def split: option.splits)

lemma ttl_is_not_None_value:
  "defaultTTL self = Inr d \<Longrightarrow> ttl_is_not_None self r = Inr (ttl_value d r)"
  by (simp add: ttl_is_not_None_def ttl_value_def split: option.splits)

lemma zone_records_append:
  "defaultTTL self = Inr d \<Longrightarrow>
   zone_records self k r results =
     Inr (results @ map (zone_header d) (filter (\<lambda>(k, rec). TYPE_of rec \<noteq> dns_SOA) (map (Pair k) r)))"
  by (induction r arbitrary: results) (simp_all add: ttl_is_not_None_value zone_header_def)

lemma zone_items_append:
  "defaultTTL self = Inr d \<Longrightarrow>
   zone_items self items results =
     Inr (results @ map (zone_header d)
            (filter (\<lambda>(k, rec). TYPE_of rec \<noteq> dns_SOA)
               (concat (map (\<lambda>(k, r). map (Pair k) r) items))))"
  by (induction items arbitrary: results) (auto simp: zone_records_append)

text \<open>
  C7.  For a zone with its SOA record and \<open>N\<close> records of other types in the store,
  \<open>lookupZone\<close> on a name that equals the apex up to case returns a list of \<open>N + 2\<close>
  headers: the SOA header first and last, and between them a header for every non-SOA
  record of the store, in the store's iteration order.
\<close>

theorem lookupZone_framing:
  assumes apex: "lower (fst (soa self)) = lower name"
    and soa: "snd (soa self) = Some s" "TYPE_of s = dns_SOA"
  shows "\<exists>d results.
           defaultTTL self = Inr d
           \<and> lookupZone self name = Inr (results, [], [])
           \<and> length results = length (non_SOA_pairs self) + 2
           \<and> hd results = mkRRHeader (fst (soa self)) dns_SOA dns_IN (ttl_value d s) (Some s) True
           \<and> last results = mkRRHeader (fst (soa self)) dns_SOA dns_IN (ttl_value d s) (Some s) True
           \<and> butlast (tl results) = map (zone_header d) (non_SOA_pairs self)"
proof -
  from defaultTTL_of_SOA [OF soa] obtain d where d: "defaultTTL self = Inr d" ..
  let ?soaH = "mkRRHeader (fst (soa self)) dns_SOA dns_IN (ttl_value d s) (Some s) True"
  let ?results = "?soaH # map (zone_header d) (non_SOA_pairs self) @ [?soaH]"
  have "lookupZone self name = Inr (?results, [], [])"
    using apex soa(1)
    by (simp add: lookupZone_def ttl_is_not_None_value [OF d] zone_items_append [OF d]
                  non_SOA_pairs_def store_pairs_def)
  moreover have "length ?results = length (non_SOA_pairs self) + 2" by simp
  moreover have "hd ?results = ?soaH" by simp
  moreover have "last ?results = ?soaH" by simp
  moreover have "butlast (tl ?results) = map (zone_header d) (non_SOA_pairs self)"
    by (simp add: butlast_append)
  ultimately show ?thesis using d by blast
qed

theorem lookupZone_framing_witness:
  "lower (fst (soa example_zone)) = lower ''Example.COM''
   \<and> snd (soa example_zone) = Some soa_record \<and> TYPE_of soa_record = dns_SOA
   \<and> length (non_SOA_pairs example_zone) = 7
   \<and> (\<exists>results. lookupZone example_zone ''Example.COM'' = Inr (results, [], [])
        \<and> length results = 9
        \<and> hd results = mkRRHeader ''example.com'' dns_SOA dns_IN 3600 (Some soa_record) True
        \<and> last results = mkRRHeader ''example.com'' dns_SOA dns_IN 3600 (Some soa_record) True)"
proof -
  have h1: "lower (fst (soa example_zone)) = lower ''Example.COM''" by code_simp
  have h2: "snd (soa example_zone) = Some soa_record" by code_simp
  have h3: "TYPE_of soa_record = dns_SOA" by code_simp
  have n: "length (non_SOA_pairs example_zone) = 7" by code_simp
  have d: "defaultTTL example_zone = Inr 3600" by code_simp
  have v: "ttl_value 3600 soa_record = 3600" by code_simp
  have a: "fst (soa example_zone) = ''example.com''" by code_simp
  from lookupZone_framing [OF h1 h2 h3] h1 h2 h3 n d v a
  show ?thesis by auto
qed

text \<open>
  C8, as the code has it.  For a name that differs from the apex (both lower-cased),
  \<open>lookupZone\<close> fails with \<open>DomainError(name)\<close>, the error \<open>_lookup\<close> uses for names
  outside the zone (the spec's NotInZone), whether or not the name lies under the apex.
\<close>

theorem lookupZone_other_name_DomainError:
  "lower (fst (soa self)) \<noteq> lower name \<Longrightarrow> lookupZone self name = Inl (DomainError name)"
  by (simp add: lookupZone_def)

theorem lookupZone_other_name_DomainError_witness:
  "lower (fst (soa example_zone)) \<noteq> lower ''www.example.com''
   \<and> lookupZone example_zone ''www.example.com'' = Inl (DomainError ''www.example.com'')"
proof -
  have h: "lower (fst (soa example_zone)) \<noteq> lower ''www.example.com''" by code_simp
  from lookupZone_other_name_DomainError [OF h] h show ?thesis by simp
qed

text \<open>
  C8, as the spec states it, fails: \<open>www.example.com\<close> is not the apex \<open>example.com\<close>
  (it lies under it), and \<open>lookupZone\<close> does not fail with \<open>AuthoritativeDomainError\<close>.
\<close>

theorem lookupZone_not_AuthoritativeDomainError:
  "lower ''www.example.com'' \<noteq> lower (fst (soa example_zone))
   \<and> isSubdomainOf spec_dns ''www.example.com'' (fst (soa example_zone))
   \<and> lookupZone example_zone ''www.example.com''
        \<noteq> Inl (AuthoritativeDomainError ''www.example.com'')"
  by code_simp

subsection \<open>Additional processing\<close>

text \<open>
  The list \<open>cnames\<close> is non-empty after the loop exactly when the owner has a CNAME
  record; every header of \<open>results\<close> and of \<open>cnames\<close> has the type of one of the
  owner's records.
\<close>

lemma record_pass_cnames_nonempty:
  "record_pass self name type rs (a, b, c, d) = Inr (results, authority, cnames, ttl) \<Longrightarrow>
     (cnames \<noteq> []) = (c \<noteq> [] \<or> (\<exists>r\<in>set rs. TYPE_of r = dns_CNAME))"
proof (induction rs arbitrary: a b c d)
  case Nil
  then show ?case by simp
next
  case (Cons r rs)
  from Cons.prems obtain t where t: "ttl_is_not_None self r = Inr t"
    by (auto split: sum.splits)
  from Cons.prems t Cons.IH show ?case
    by (auto split: if_splits)
qed

lemma record_pass_results_types:
  "record_pass self name type rs (a, b, c, d) = Inr (results, authority, cnames, ttl) \<Longrightarrow>
     h \<in> set results \<Longrightarrow> h \<in> set a \<or> (\<exists>r\<in>set rs. TYPE_of r = rr_type h)"
proof (induction rs arbitrary: a b c d)
  case Nil
  then show ?case by simp
next
  case (Cons r rs)
  from Cons.prems obtain t where t: "ttl_is_not_None self r = Inr t"
    by (auto split: sum.splits)
  from Cons.prems t Cons.IH show ?case
    by (simp split: if_splits) (fastforce simp: mkRRHeader_def)+
qed

lemma record_pass_cnames_types:
  "record_pass self name type rs (a, b, c, d) = Inr (results, authority, cnames, ttl) \<Longrightarrow>
     h \<in> set cnames \<Longrightarrow> h \<in> set c \<or> (\<exists>r\<in>set rs. TYPE_of r = rr_type h)"
proof (induction rs arbitrary: a b c d)
  case Nil
  then show ?case by simp
next
  case (Cons r rs)
  from Cons.prems obtain t where t: "ttl_is_not_None self r = Inr t"
    by (auto split: sum.splits)
  from Cons.prems t Cons.IH show ?case
    by (simp split: if_splits) (fastforce simp: mkRRHeader_def)+
qed

text \<open>
  C1, as the code has it.  For a query on an owner name with a non-empty record list,
  let \<open>orig\<close> be the answer list after CNAME substitution and \<open>extra\<close> the records of
  the additional processing.  If the owner has any CNAME record, whether or not it was
  placed in \<open>orig\<close>, the answer is \<open>orig\<close> followed by \<open>extra\<close> and \<open>additional\<close> is
  empty; otherwise the answer is \<open>orig\<close> and \<open>additional\<close> is \<open>extra\<close>.  In particular
  \<open>extra\<close> goes into the answer whenever \<open>orig\<close> contains a CNAME record.
\<close>

theorem additional_into_answer_iff_owner_has_CNAME:
  assumes present: "map_of (records self) (lower name) = Some rs" and nonempty: "rs \<noteq> []"
    and pass: "record_pass self name type rs ([], [], [], None)
                 = Inr (results0, authority, cnames, ttl)"
    and extra: "additionalRecords self (if results0 = [] then cnames else results0) authority
                  = Inr extra"
  shows "\<exists>answer authority' additional.
           lookup dns self name cls type = Inr (answer, authority', additional)
           \<and> (if \<exists>r\<in>set rs. TYPE_of r = dns_CNAME
               then answer = (if results0 = [] then cnames else results0) @ extra
                    \<and> additional = []
               else answer = (if results0 = [] then cnames else results0)
                    \<and> additional = extra)
           \<and> ((\<exists>h\<in>set (if results0 = [] then cnames else results0). rr_type h = dns_CNAME)
                \<longrightarrow> answer = (if results0 = [] then cnames else results0) @ extra
                    \<and> additional = [])"
proof -
  let ?orig = "if results0 = [] then cnames else results0"
  have gate: "(cnames \<noteq> []) = (\<exists>r\<in>set rs. TYPE_of r = dns_CNAME)"
    using record_pass_cnames_nonempty [OF pass] by simp
  have in_answer: "\<exists>r\<in>set rs. TYPE_of r = dns_CNAME"
    if "\<exists>h\<in>set ?orig. rr_type h = dns_CNAME"
  proof -
    from that obtain h where h: "h \<in> set ?orig" "rr_type h = dns_CNAME" by blast
    show ?thesis
    proof (cases "results0 = []")
      case True
      with h record_pass_cnames_types [OF pass, of h] show ?thesis by auto
    next
      case False
      with h record_pass_results_types [OF pass, of h] show ?thesis by auto
    qed
  qed
  from record_pass_last_ttl [OF pass nonempty] obtain t where t: "ttl = Some t" by blast
  let ?answer = "if cnames \<noteq> [] then ?orig @ extra else ?orig"
  let ?additional = "if cnames \<noteq> [] then [] else extra"
  have syn: "synthesis self (results0, authority, cnames, ttl)
               = Inr (?answer, authority, ?additional, ttl)"
    using extra by (simp add: synthesis_def)
  have "\<exists>authority'. lookup dns self name cls type = Inr (?answer, authority', ?additional)"
    using present nonempty pass syn t
    by (simp add: lookup_def negative_answer_def del: append_is_Nil_conv)
  then obtain authority' where
    res: "lookup dns self name cls type = Inr (?answer, authority', ?additional)" ..
  show ?thesis
  proof (cases "\<exists>r\<in>set rs. TYPE_of r = dns_CNAME")
    case True
    with gate have "cnames \<noteq> []" by simp
    with res True show ?thesis by auto
  next
    case False
    with gate have c: "cnames = []" by simp
    from False in_answer have "\<not> (\<exists>h\<in>set ?orig. rr_type h = dns_CNAME)" by blast
    with res False c show ?thesis by auto
  qed
qed

theorem additional_into_answer_iff_owner_has_CNAME_witness:
  "map_of (records example_zone) (lower ''alias.example.com'')
     = Some [cname_record ''www.example.com'']
   \<and> (\<exists>authority'.
         lookup spec_dns example_zone ''alias.example.com'' dns_IN dns_A =
           Inr ([mkRRHeader ''alias.example.com'' dns_CNAME dns_IN 3600
                   (Some (cname_record ''www.example.com'')) True,
                 mkRRHeader ''www.example.com'' dns_A dns_IN 300
                   (Some (a_record ''10.0.0.1'' (Some 300))) True],
                authority', []))"
proof -
  let ?c = "cname_record ''www.example.com''"
  let ?ch = "mkRRHeader ''alias.example.com'' dns_CNAME dns_IN 3600 (Some ?c) True"
  let ?ah = "mkRRHeader ''www.example.com'' dns_A dns_IN 300
               (Some (a_record ''10.0.0.1'' (Some 300))) True"
  have h1: "map_of (records example_zone) (lower ''alias.example.com'') = Some [?c]"
    by code_simp
  have h2: "[?c] \<noteq> []" by simp
  have h3: "record_pass example_zone ''alias.example.com'' dns_A [?c] ([], [], [], None)
              = Inr ([], [], [?ch], Some 3600)"
    by code_simp
  have h4: "additionalRecords example_zone (if [] = [] then [?ch] else []) [] = Inr [?ah]"
    by code_simp
  have c: "\<exists>r\<in>set [?c]. TYPE_of r = dns_CNAME" by code_simp
  from additional_into_answer_iff_owner_has_CNAME [OF h1 h2 h3 h4, of spec_dns dns_IN] c
  have "\<exists>authority'. lookup spec_dns example_zone ''alias.example.com'' dns_IN dns_A
           = Inr ([?ch, ?ah], authority', [])"
    by auto
  with h1 show ?thesis by blast
qed

text \<open>
  C1, as the spec states it, fails.  The apex of the example zone has an MX and a CNAME
  record.  For an MX query the answer before the additional processing is the MX header
  alone, which is no CNAME record; yet the address record of the mail exchanger is
  appended to the answer, and \<open>additional\<close> stays empty.
\<close>

theorem additional_in_answer_without_CNAME_in_answer:
  "map_of (records example_zone) (lower ''example.com'')
     = Some [soa_record, mx_record ''mail.example.com'' None, cname_record ''www.example.com'']
   \<and> record_pass example_zone ''example.com'' dns_MX
         [soa_record, mx_record ''mail.example.com'' None, cname_record ''www.example.com'']
         ([], [], [], None)
       = Inr ([mkRRHeader ''example.com'' dns_MX dns_IN 3600
                 (Some (mx_record ''mail.example.com'' None)) True],
              [],
              [mkRRHeader ''example.com'' dns_CNAME dns_IN 3600
                 (Some (cname_record ''www.example.com'')) True],
              Some 3600)
   \<and> rr_type (mkRRHeader ''example.com'' dns_MX dns_IN 3600
                 (Some (mx_record ''mail.example.com'' None)) True) \<noteq> dns_CNAME
   \<and> lookup spec_dns example_zone ''example.com'' dns_IN dns_MX
       = Inr ([mkRRHeader ''example.com'' dns_MX dns_IN 3600
                 (Some (mx_record ''mail.example.com'' None)) True,
               mkRRHeader ''mail.example.com'' dns_A dns_IN 3600
                 (Some (a_record ''10.0.0.2'' (Some 0))) True],
              [], [])"
  by code_simp

subsection \<open>Explicit TTLs\<close>

text \<open>
  The record pass of \<open>_lookup\<close> and the loops of \<open>lookupZone\<close> test
  \<open>ttl is not None\<close>: an explicit TTL, also 0, is the TTL of the header.  The additional
  processing tests the truth value of \<open>rec.ttl\<close>: an explicit TTL of 0 gives the default.
\<close>

lemma ttl_is_not_None_explicit: "r_ttl r = Some t \<Longrightarrow> ttl_is_not_None self r = Inr t"
  by (simp add: ttl_is_not_None_def)

lemma ttl_or_default_nonzero:
  "r_ttl r = Some t \<Longrightarrow> t \<noteq> 0 \<Longrightarrow> ttl_or_default self r = Inr t"
  by (simp add: ttl_or_default_def)

lemma ttl_or_default_zero: "r_ttl r = Some 0 \<Longrightarrow> ttl_or_default self r = defaultTTL self"
  by (simp add: ttl_or_default_def)

text \<open>
  C9 at the failing input.  The address record of \<open>mail.example.com\<close> carries the
  explicit TTL 0 and the zone default is 3600.  The MX query on \<open>mx.example.com\<close> puts
  that record into \<open>additional\<close> under a header with TTL 3600.
\<close>

theorem additional_ttl_zero_replaced_by_default:
  "map_of (records example_zone) (lower ''mail.example.com'') = Some [a_record ''10.0.0.2'' (Some 0)]
   \<and> defaultTTL example_zone = Inr 3600
   \<and> lookup spec_dns example_zone ''mx.example.com'' dns_IN dns_MX
       = Inr ([mkRRHeader ''mx.example.com'' dns_MX dns_IN 60
                 (Some (mx_record ''mail.example.com'' (Some 60))) True],
              [],
              [mkRRHeader ''mail.example.com'' dns_A dns_IN 3600
                 (Some (a_record ''10.0.0.2'' (Some 0))) True])"
  by code_simp

subsection \<open>Queries on a present name return\<close>

text \<open>
  When the zone has a default TTL (a configured one, or an SOA record to take it from),
  nothing in \<open>_lookup\<close> raises for a name with a non-empty record list: the headers
  that the record pass builds carry the record they were built from, so
  \<open>_additionalRecords\<close> finds the \<open>name\<close> attribute it reads.
\<close>

lemma ttl_or_default_total:
  "defaultTTL self = Inr d \<Longrightarrow> \<exists>t. ttl_or_default self r = Inr t"
  by (simp add: ttl_or_default_def split: option.splits)

lemma address_records_total:
  "defaultTTL self = Inr d \<Longrightarrow> \<exists>hs. address_records self name rs = Inr hs"
proof (induction rs)
  case Nil
  then show ?case by simp
next
  case (Cons r rs)
  from ttl_or_default_total [OF Cons.prems] obtain t where "ttl_or_default self r = Inr t" ..
  moreover from Cons obtain hs where "address_records self name rs = Inr hs" by blast
  ultimately show ?case by simp
qed

lemma rdata_name_total:
  "TYPE_of r \<in> {dns_CNAME, dns_MX, dns_NS} \<Longrightarrow> \<exists>n. rdata_name (r_data r) = Inr n"
  by (cases "r_data r") (auto simp: TYPE_of_def)

lemma additional_loop_total:
  assumes "defaultTTL self = Inr d"
    and "\<forall>h\<in>set hs. \<exists>r. rr_payload h = Some r \<and> rr_type h = TYPE_of r"
  shows "\<exists>out. additional_loop self hs = Inr out"
  using assms(2)
proof (induction hs)
  case Nil
  then show ?case by simp
next
  case (Cons h hs)
  from Cons obtain further where f: "additional_loop self hs = Inr further" by auto
  show ?case
  proof (cases "rr_type h \<in> {dns_CNAME, dns_MX, dns_NS}")
    case False
    with f show ?thesis by simp
  next
    case True
    from Cons.prems obtain r where r: "rr_payload h = Some r" "rr_type h = TYPE_of r" by auto
    with True rdata_name_total [of r] obtain n where n: "rdata_name (r_data r) = Inr n" by auto
    from address_records_total [OF assms(1)] obtain found where
      "address_records self n (case map_of (records self) (lower n) of None \<Rightarrow> [] | Some rs \<Rightarrow> rs)
         = Inr found" by blast
    with True r n f show ?thesis by simp
  qed
qed

lemma record_pass_total:
  assumes "defaultTTL self = Inr d"
    and "\<forall>h\<in>set (a @ b @ c). \<exists>r. rr_payload h = Some r \<and> rr_type h = TYPE_of r"
  shows "\<exists>results authority cnames ttl.
           record_pass self name type rs (a, b, c, ttl0) = Inr (results, authority, cnames, ttl)
           \<and> (\<forall>h\<in>set (results @ authority @ cnames).
                 \<exists>r. rr_payload h = Some r \<and> rr_type h = TYPE_of r)"
  using assms(2)
proof (induction rs arbitrary: a b c ttl0)
  case Nil
  then show ?case by simp
next
  case (Cons r rs)
  let ?ns = "TYPE_of r = dns_NS \<and> lower name \<noteq> lower (fst (soa self))"
  let ?h = "\<lambda>auth. mkRRHeader name (TYPE_of r) dns_IN (ttl_value d r) (Some r) auth"
  let ?a = "if ?ns then a
            else if TYPE_of r = type \<or> type = dns_ALL_RECORDS then a @ [?h True] else a"
  let ?b = "if ?ns then b @ [?h False] else b"
  let ?c = "if TYPE_of r = dns_CNAME then c @ [?h True] else c"
  have t: "ttl_is_not_None self r = Inr (ttl_value d r)"
    by (rule ttl_is_not_None_value [OF assms(1)])
  have step: "record_pass self name type (r # rs) (a, b, c, ttl0)
                = record_pass self name type rs (?a, ?b, ?c, Some (ttl_value d r))"
    by (simp add: t)
  have wf: "\<forall>h\<in>set (?a @ ?b @ ?c). \<exists>r. rr_payload h = Some r \<and> rr_type h = TYPE_of r"
    using Cons.prems by (auto simp: mkRRHeader_def)
  from Cons.IH [OF wf, of "Some (ttl_value d r)"] show ?case
    by (simp only: step)
qed

lemma lookup_total:
  assumes present: "map_of (records self) (lower name) = Some rs" and nonempty: "rs \<noteq> []"
    and default: "defaultTTL self = Inr d"
  shows "\<exists>answer authority additional.
           lookup dns self name cls type = Inr (answer, authority, additional)"
proof -
  from record_pass_total [OF default, of "[]" "[]" "[]" name type rs None]
  obtain results0 authority cnames ttl where
    pass: "record_pass self name type rs ([], [], [], None)
             = Inr (results0, authority, cnames, ttl)"
    and wf: "\<forall>h\<in>set (results0 @ authority @ cnames).
               \<exists>r. rr_payload h = Some r \<and> rr_type h = TYPE_of r"
    by auto
  from record_pass_last_ttl [OF pass nonempty] obtain t where t: "ttl = Some t" by blast
  from wf have "\<forall>h\<in>set ((if results0 = [] then cnames else results0) @ authority).
                  \<exists>r. rr_payload h = Some r \<and> rr_type h = TYPE_of r"
    by auto
  from additional_loop_total [OF default this] obtain extra where
    extra: "additionalRecords self (if results0 = [] then cnames else results0) authority
              = Inr extra"
    by (auto simp: additionalRecords_def)
  show ?thesis
    using present nonempty pass extra t
    by (simp add: lookup_def synthesis_def negative_answer_def)
qed

section \<open>The zone-file parser\<close>

subsection \<open>Continuation lines\<close>

text \<open>
  C5 at the failing input.  On the single physical line of the spec,
  \<open>collapseContinuations\<close> keeps the text before the opening parenthesis only: the five
  numeric fields are lost.  With the line split after the opening parenthesis, all ten
  tokens arrive.  The two inputs do not parse to the same logical line.
\<close>

theorem continuation_on_one_line_loses_rdata:
  "collapseContinuations (stripComments soa_one_line)
     = Inr [[''@'', ''IN'', ''SOA'', ''ns1'', ''admin'']]
   \<and> collapseContinuations (stripComments soa_split_lines)
     = Inr [[''@'', ''IN'', ''SOA'', ''ns1'', ''admin'',
             ''2020010100'', ''3600'', ''600'', ''604800'', ''3600'']]
   \<and> collapseContinuations (stripComments soa_one_line)
     \<noteq> collapseContinuations (stripComments soa_split_lines)"
  by code_simp

subsection \<open>The owner of a record line\<close>




subsection \<open>The store key of a record line\<close>

lemma class_IN_records:
  "class_IN dns ttl type domain rdata self = Inr self' \<Longrightarrow>
     \<exists>r. records self' = setdefault_append (lower domain) r (records self) \<and> r_ttl r = Some ttl"
  by (auto simp: class_IN_def Let_def split: option.splits sum.splits if_splits)

lemma addRecord_records:
  "addRecord dns owner ttl type domain cls rdata self = Inr self' \<Longrightarrow>
     \<exists>r. records self' =
           setdefault_append
             (lower (if endswith_dot domain then butlast domain else domain @ ''.'' @ owner))
             r (records self)"
  by (auto simp: addRecord_def Let_def split: if_splits dest!: class_IN_records)

text \<open>
  The two \<open>if\<close> statements of \<open>parseRecordLine\<close> that settle \<open>domain\<close> and \<open>owner\<close>
  compute the domain and the suffix read off the first two tokens.
\<close>

lemma parse_owner_domain_is_line_domain_suffix:
  assumes "parse_owner dns origin line = Inr (owner0, line1)"
    and "parse_domain dns origin owner0 line1 = Inr (domain, owner, line2)"
  shows "line_domain_suffix dns origin line = (domain, owner)"
proof (cases line)
  case Nil
  with assms(1) show ?thesis by (simp add: parse_owner_def)
next
  case (Cons t0 rest)
  show ?thesis
  proof (cases rest)
    case Nil
    with Cons assms show ?thesis
      by (auto simp: parse_owner_def parse_domain_def split: if_splits)
  next
    case (Cons t1 rest')
    with \<open>line = t0 # rest\<close> assms show ?thesis
      by (auto simp: parse_owner_def parse_domain_def is_name_token_def split: if_splits)
  qed
qed

text \<open>
  C6, as the code has it.  For every record line that parses, the record is stored under
  the lower-cased normalized domain: the domain without its last character if it ends
  with a dot, else the domain followed by a dot and a suffix.  Domain and suffix are read
  off the first two tokens of the line, a name token being one that is neither numeric
  nor a class or type keyword: after a leading \<open>@\<close>, the domain is the second token
  if that is a name token and the origin otherwise, and the suffix is the origin; after a
  leading name token, the domain is the second token and the suffix is the first token
  if the second is a name token too (also when it is \<open>@\<close>), and otherwise the domain is
  the first token and the suffix is the origin; in every other case both are the origin.
\<close>

theorem store_key_of_record_line:
  assumes "parseRecordLine dns origin ttl line self = Inr self'"
  shows "\<exists>r. records self' =
               setdefault_append
                 (lower (normalized_domain (fst (line_domain_suffix dns origin line))
                                           (snd (line_domain_suffix dns origin line))))
                 r (records self)"
proof -
  from assms obtain owner0 line1 where po: "parse_owner dns origin line = Inr (owner0, line1)"
    by (auto simp: parseRecordLine_def split: sum.splits)
  from assms po obtain domain owner line2 where
    pd: "parse_domain dns origin owner0 line1 = Inr (domain, owner, line2)"
    by (auto simp: parseRecordLine_def split: sum.splits)
  from assms po pd obtain cls ttl' type rdata where
    ar: "addRecord dns owner ttl' type domain cls rdata self = Inr self'"
    by (auto simp: parseRecordLine_def split: sum.splits list.splits)
  from addRecord_records [OF ar] obtain r where
    r: "records self' =
          setdefault_append
            (lower (if endswith_dot domain then butlast domain else domain @ ''.'' @ owner))
            r (records self)" ..
  have "line_domain_suffix dns origin line = (domain, owner)"
    by (rule parse_owner_domain_is_line_domain_suffix [OF po pd])
  with r show ?thesis by (auto simp: normalized_domain_def)
qed

text \<open>
  Four lines with the origin \<open>example.com.\<close>: two leading name tokens (the suffix is the
  first token), a name token followed by \<open>@\<close> (the same, the domain is \<open>@\<close>), one
  name token before the class (the suffix is the origin), and a domain that ends with a
  dot.
\<close>

theorem store_key_of_record_line_witness:
  "parseRecordLine spec_dns ''example.com.'' 10800 [''foo'', ''bar'', ''IN'', ''A'', ''9.9.9.9'']
       init_MemoryAuthority
     = Inr (init_MemoryAuthority\<lparr>records := [(''bar.foo'', [a_record ''9.9.9.9'' (Some 10800)])]\<rparr>)
   \<and> (\<exists>r. [(''bar.foo'', [a_record ''9.9.9.9'' (Some 10800)])]
          = setdefault_append (lower (''bar'' @ ''.'' @ ''foo'')) r [])
   \<and> parseRecordLine spec_dns ''example.com.'' 10800 [''foo'', ''@'', ''IN'', ''A'', ''9.9.9.9'']
       init_MemoryAuthority
     = Inr (init_MemoryAuthority\<lparr>records := [(''@.foo'', [a_record ''9.9.9.9'' (Some 10800)])]\<rparr>)
   \<and> (\<exists>r. [(''@.foo'', [a_record ''9.9.9.9'' (Some 10800)])]
          = setdefault_append (lower (''@'' @ ''.'' @ ''foo'')) r [])
   \<and> parseRecordLine spec_dns ''example.com.'' 10800 [''WWW'', ''IN'', ''A'', ''1.2.3.4'']
       init_MemoryAuthority
     = Inr (init_MemoryAuthority\<lparr>records := [(''www.example.com.'', [a_record ''1.2.3.4'' (Some 10800)])]\<rparr>)
   \<and> (\<exists>r. [(''www.example.com.'', [a_record ''1.2.3.4'' (Some 10800)])]
          = setdefault_append (lower (''WWW'' @ ''.'' @ ''example.com.'')) r [])
   \<and> parseRecordLine spec_dns ''example.com.'' 10800 [''Host.Example.ORG.'', ''IN'', ''A'', ''1.2.3.4'']
       init_MemoryAuthority
     = Inr (init_MemoryAuthority\<lparr>records := [(''host.example.org'', [a_record ''1.2.3.4'' (Some 10800)])]\<rparr>)
   \<and> (\<exists>r. [(''host.example.org'', [a_record ''1.2.3.4'' (Some 10800)])]
          = setdefault_append (lower (butlast ''Host.Example.ORG.'')) r [])"
proof -
  let ?o = "''example.com.''"
  let ?l1 = "[''foo'', ''bar'', ''IN'', ''A'', ''9.9.9.9'']"
  let ?s1 = "init_MemoryAuthority\<lparr>records := [(''bar.foo'', [a_record ''9.9.9.9'' (Some 10800)])]\<rparr>"
  let ?l2 = "[''foo'', ''@'', ''IN'', ''A'', ''9.9.9.9'']"
  let ?s2 = "init_MemoryAuthority\<lparr>records := [(''@.foo'', [a_record ''9.9.9.9'' (Some 10800)])]\<rparr>"
  let ?l3 = "[''WWW'', ''IN'', ''A'', ''1.2.3.4'']"
  let ?s3 = "init_MemoryAuthority\<lparr>records := [(''www.example.com.'', [a_record ''1.2.3.4'' (Some 10800)])]\<rparr>"
  let ?l4 = "[''Host.Example.ORG.'', ''IN'', ''A'', ''1.2.3.4'']"
  let ?s4 = "init_MemoryAuthority\<lparr>records := [(''host.example.org'', [a_record ''1.2.3.4'' (Some 10800)])]\<rparr>"
  have e: "records init_MemoryAuthority = []" by code_simp
  have h1: "parseRecordLine spec_dns ?o 10800 ?l1 init_MemoryAuthority = Inr ?s1" by code_simp
  have d1: "line_domain_suffix spec_dns ?o ?l1 = (''bar'', ''foo'')" by code_simp
  have n1: "normalized_domain ''bar'' ''foo'' = ''bar'' @ ''.'' @ ''foo''" by code_simp
  have h2: "parseRecordLine spec_dns ?o 10800 ?l2 init_MemoryAuthority = Inr ?s2" by code_simp
  have d2: "line_domain_suffix spec_dns ?o ?l2 = (''@'', ''foo'')" by code_simp
  have n2: "normalized_domain ''@'' ''foo'' = ''@'' @ ''.'' @ ''foo''" by code_simp
  have h3: "parseRecordLine spec_dns ?o 10800 ?l3 init_MemoryAuthority = Inr ?s3" by code_simp
  have d3: "line_domain_suffix spec_dns ?o ?l3 = (''WWW'', ?o)" by code_simp
  have n3: "normalized_domain ''WWW'' ?o = ''WWW'' @ ''.'' @ ?o" by code_simp
  have h4: "parseRecordLine spec_dns ?o 10800 ?l4 init_MemoryAuthority = Inr ?s4" by code_simp
  have d4: "line_domain_suffix spec_dns ?o ?l4 = (''Host.Example.ORG.'', ?o)" by code_simp
  have n4: "normalized_domain ''Host.Example.ORG.'' ?o = butlast ''Host.Example.ORG.''"
    by code_simp
  from store_key_of_record_line [OF h1]
  have k1: "\<exists>r. [(''bar.foo'', [a_record ''9.9.9.9'' (Some 10800)])]
              = setdefault_append (lower (''bar'' @ ''.'' @ ''foo'')) r []"
    by (simp only: d1 n1 e fst_conv snd_conv) simp
  from store_key_of_record_line [OF h2]
  have k2: "\<exists>r. [(''@.foo'', [a_record ''9.9.9.9'' (Some 10800)])]
              = setdefault_append (lower (''@'' @ ''.'' @ ''foo'')) r []"
    by (simp only: d2 n2 e fst_conv snd_conv) simp
  from store_key_of_record_line [OF h3]
  have k3: "\<exists>r. [(''www.example.com.'', [a_record ''1.2.3.4'' (Some 10800)])]
              = setdefault_append (lower (''WWW'' @ ''.'' @ ''example.com.'')) r []"
    by (simp only: d3 n3 e fst_conv snd_conv) simp
  from store_key_of_record_line [OF h4]
  have k4: "\<exists>r. [(''host.example.org'', [a_record ''1.2.3.4'' (Some 10800)])]
              = setdefault_append (lower (butlast ''Host.Example.ORG.'')) r []"
    by (simp only: d4 n4 e fst_conv snd_conv) simp
  from h1 k1 h2 k2 h3 k3 h4 k4 show ?thesis by blast
qed

text \<open>
  C6, as the spec states it, fails.  In the line \<open>foo bar IN A 9.9.9.9\<close> the domain
  token is \<open>bar\<close>, which does not end with a dot; the origin is \<open>example.com.\<close>.  The
  record is stored under \<open>bar.foo\<close>, not under \<open>bar.example.com.\<close>.
\<close>

theorem store_key_suffix_is_first_token:
  "parseRecordLine spec_dns ''example.com.'' 10800 [''foo'', ''bar'', ''IN'', ''A'', ''9.9.9.9'']
       init_MemoryAuthority
     = Inr \<lparr>soa = ('''', None),
            records = [(''bar.foo'', [a_record ''9.9.9.9'' (Some 10800)])],
            defaultTTLValue = None\<rparr>
   \<and> parse_domain spec_dns ''example.com.'' ''foo'' [''bar'', ''IN'', ''A'', ''9.9.9.9'']
       = Inr (''bar'', ''foo'', [''IN'', ''A'', ''9.9.9.9''])
   \<and> \<not> endswith_dot ''bar''
   \<and> lower (''bar'' @ ''.'' @ ''example.com.'') = ''bar.example.com.''
   \<and> ''bar.foo'' \<noteq> ''bar.example.com.''"
  by code_simp

end
